theory Spec2Isabelle
  imports Complex_Main "HOL-Library.Word"
begin

section \<open>The registration form of \<^verbatim>\<open>src/App.tsx\<close>\<close>

text \<open>
  \<^verbatim>\<open>App.tsx\<close> declares a zod schema (\<^verbatim>\<open>createUserFormSchema\<close>), two handlers
  (\<^verbatim>\<open>addNewTech\<close>, \<^verbatim>\<open>createUser\<close>) and the form that \<^verbatim>\<open>handleSubmit\<close> of
  react-hook-form guards with the schema. The model follows that structure: the schema is a
  function from the raw form values to a parse result, the handlers are functions on the
  state of the page, and every call that leaves the page (the storage upload) or writes the
  screen (\<^verbatim>\<open>setOutput\<close>) is recorded, in program order, in a trace.
\<close>

subsection \<open>JavaScript values\<close>

text \<open>
  A JavaScript string is a sequence of 16-bit code units; \<^verbatim>\<open>length\<close>, indexing,
  \<^verbatim>\<open>split\<close> and \<^verbatim>\<open>endsWith\<close> work on code units. \<open>ascii\<close> gives the string of a
  literal of the source.
\<close>

type_synonym code_unit = "16 word"

type_synonym js_string = "code_unit list"

definition ascii :: "string \<Rightarrow> js_string" where
  "ascii s = map of_char s"

text \<open>
  \<^verbatim>\<open>s.trim()\<close> removes the white space and the line terminators at both ends: tab, line
  feed, vertical tab, form feed, carriage return, space, no-break space, the other space
  separators of Unicode, the line and paragraph separators and the byte order mark.
\<close>

definition is_white_space :: "code_unit \<Rightarrow> bool" where
  "is_white_space c =
     (c \<in> {0x0009, 0x000A, 0x000B, 0x000C, 0x000D, 0x0020, 0x00A0, 0x1680,
            0x2000, 0x2001, 0x2002, 0x2003, 0x2004, 0x2005, 0x2006, 0x2007, 0x2008, 0x2009,
            0x200A, 0x2028, 0x2029, 0x202F, 0x205F, 0x3000, 0xFEFF})"

definition trim :: "js_string \<Rightarrow> js_string" where
  "trim s = rev (dropWhile is_white_space (rev (dropWhile is_white_space s)))"

text \<open>
  \<^verbatim>\<open>s.split(d)\<close> for a separator of one code unit: the result is never empty, and two
  separators in a row (or one at either end) give an empty piece.
\<close>

fun split :: "code_unit \<Rightarrow> js_string \<Rightarrow> js_string list" where
  "split d [] = [[]]"
| "split d (c # cs) =
     (if c = d then [] # split d cs
      else (case split d cs of
              [] \<Rightarrow> [[c]]
            | w # ws \<Rightarrow> (c # w) # ws))"

text \<open>\<^verbatim>\<open>ws.join(sep)\<close>\<close>

fun join :: "js_string \<Rightarrow> js_string list \<Rightarrow> js_string" where
  "join sep [] = []"
| "join sep [w] = w"
| "join sep (w # v # ws) = w @ sep @ join sep (v # ws)"

text \<open>\<^verbatim>\<open>s.endsWith(suffix)\<close>\<close>

definition endsWith :: "js_string \<Rightarrow> js_string \<Rightarrow> bool" where
  "endsWith s suf = (length suf \<le> length s \<and> drop (length s - length suf) s = suf)"

text \<open>
  A JavaScript number is \<^verbatim>\<open>NaN\<close>, an infinity or a finite value; every finite binary64
  value is a rational. The comparisons are those of the language: any comparison with
  \<^verbatim>\<open>NaN\<close> is false.
\<close>

datatype js_number = NaN | NegInfinity | Finite rat | PosInfinity

fun js_less :: "js_number \<Rightarrow> js_number \<Rightarrow> bool" where
  "js_less NaN _ = False"
| "js_less _ NaN = False"
| "js_less NegInfinity NegInfinity = False"
| "js_less NegInfinity _ = True"
| "js_less (Finite a) (Finite b) = (a < b)"
| "js_less (Finite a) PosInfinity = True"
| "js_less (Finite a) NegInfinity = False"
| "js_less PosInfinity _ = False"

definition js_greater :: "js_number \<Rightarrow> js_number \<Rightarrow> bool" where
  "js_greater a b = js_less b a"

text \<open>The values a knowledge field can hold: the number the page appends, or the text of the input.\<close>

datatype js_value = JSNumber js_number | JSString js_string

datatype js_error = TypeError | UploadFailure

text \<open>
  A \<^verbatim>\<open>File\<close> has a name and its bytes; \<^verbatim>\<open>file.size\<close> is the number of bytes.
\<close>

record js_file =
  file_name :: js_string
  file_bytes :: "char list"

definition file_size :: "js_file \<Rightarrow> nat" where
  "file_size f = length (file_bytes f)"

text \<open>\<^verbatim>\<open>list.item(i)\<close> of a \<^verbatim>\<open>FileList\<close>: the file at index \<open>i\<close>, or \<^verbatim>\<open>null\<close>.\<close>

definition item :: "js_file list \<Rightarrow> nat \<Rightarrow> js_file option" where
  "item list i = (if i < length list then Some (list ! i) else None)"

subsection \<open>What the libraries and the language supply\<close>

text \<open>
  Five functions are taken as parameters, since their definitions are outside the
  repository: the address format that zod's \<^verbatim>\<open>.email()\<close> tests; \<^verbatim>\<open>Number(s)\<close> on a
  string; the decimal text of a finite number that \<^verbatim>\<open>JSON.stringify\<close> prints;
  \<^verbatim>\<open>s.toLocaleUpperCase()\<close>, which follows the Unicode tables and the locale of the host;
  and \<^verbatim>\<open>s.toLowerCase()\<close> on the strings that are not wholly in Latin-1, which follows
  the Unicode tables. Every theorem below holds for all of them.
\<close>

record platform =
  zod_email :: "js_string \<Rightarrow> bool"
  Number_of_string :: "js_string \<Rightarrow> js_number"
  Number_toString :: "rat \<Rightarrow> js_string"
  toLocaleUpperCase :: "js_string \<Rightarrow> js_string"
  toLowerCase_beyond_latin1 :: "js_string \<Rightarrow> js_string"

text \<open>\<^verbatim>\<open>Number(v)\<close>, the coercion of \<^verbatim>\<open>z.coerce.number()\<close>.\<close>

fun Number :: "platform \<Rightarrow> js_value \<Rightarrow> js_number" where
  "Number p (JSNumber n) = n"
| "Number p (JSString s) = Number_of_string p s"

text \<open>
  \<^verbatim>\<open>s.toLowerCase()\<close>. On a string whose code units are all below \<open>0x100\<close> (Latin-1)
  the conversion works unit by unit: the letters \<open>A\<close> to \<open>Z\<close> (\<open>0x41\<close> to \<open>0x5A\<close>) and
  the accented capitals \<open>0xC0\<close> to \<open>0xDE\<close>, without the multiplication sign \<open>0xD7\<close>,
  move up by \<open>0x20\<close>; everything else stays. On any other string the conversion is the
  platform's.
\<close>

definition is_latin1 :: "code_unit \<Rightarrow> bool" where
  "is_latin1 c = (c < 0x100)"

definition is_latin1_capital :: "code_unit \<Rightarrow> bool" where
  "is_latin1_capital c =
     ((0x41 \<le> c \<and> c \<le> 0x5A) \<or> (0xC0 \<le> c \<and> c \<le> 0xD6) \<or> (0xD8 \<le> c \<and> c \<le> 0xDE))"

definition lower_latin1 :: "code_unit \<Rightarrow> code_unit" where
  "lower_latin1 c = (if is_latin1_capital c then c + 0x20 else c)"

definition toLowerCase :: "platform \<Rightarrow> js_string \<Rightarrow> js_string" where
  "toLowerCase p s =
     (if list_all is_latin1 s then map lower_latin1 s else toLowerCase_beyond_latin1 p s)"

subsection \<open>The schema\<close>

text \<open>
  The values the form hands to the resolver. The avatar is whatever the form holds under
  that key: a \<^verbatim>\<open>FileList\<close>, or a value that is no \<^verbatim>\<open>FileList\<close> (\<^verbatim>\<open>undefined\<close> when no
  input is registered for it).
\<close>

datatype avatar_value = NotFileList | FileList "js_file list"

record tech_value =
  title_value :: js_string
  knowledge_value :: js_value

record form_values =
  avatar_value :: avatar_value
  name_value :: js_string
  email_value :: js_string
  password_value :: js_string
  techs_value :: "tech_value list"

text \<open>\<^verbatim>\<open>CreateUserFormData\<close>, the output type of the schema.\<close>

record tech =
  title :: js_string
  knowledge :: js_number

record CreateUserFormData =
  avatar :: js_file
  name :: js_string
  email :: js_string
  password :: js_string
  techs :: "tech list"

text \<open>
  One constructor for each issue the schema can raise; those with a message in the source
  stand for that message (written here without its accents), the others for the default
  message of zod. The index is the position of the entry in \<^verbatim>\<open>techs\<close>.
  \<^item> \<open>AvatarNotFileList\<close>: \<^verbatim>\<open>z.instanceof(FileList)\<close> fails;
  \<^item> \<open>AvatarTooLarge\<close>: "O arquivo precisa ter no maximo 5Mb";
  \<^item> \<open>NameRequired\<close>: "O nome e obrigatorio";
  \<^item> \<open>EmailRequired\<close>: "O e-mail e obrigatorio";
  \<^item> \<open>EmailFormat\<close>: "Formato de e-mail invalido";
  \<^item> \<open>EmailNotBoo\<close>: "O e-mail precisa ser da boo";
  \<^item> \<open>PasswordTooShort\<close>: "A senha precisa de no minimo 6 caracteres";
  \<^item> \<open>TitleRequired\<close>: "O titulo e obrigatorio";
  \<^item> \<open>KnowledgeNotNumber\<close>, \<open>KnowledgeTooSmall\<close>, \<open>KnowledgeTooBig\<close>: the coerced value
    is \<^verbatim>\<open>NaN\<close>, below \<^verbatim>\<open>min(1)\<close>, above \<^verbatim>\<open>max(100)\<close>;
  \<^item> \<open>TooFewTechs\<close>: "Insira no minimo duas tecnologias";
  \<^item> \<open>StillLearning\<close>: "Voce esta aprendendo!".
\<close>

datatype issue =
    AvatarNotFileList | AvatarTooLarge
  | NameRequired
  | EmailRequired | EmailFormat | EmailNotBoo
  | PasswordTooShort
  | TitleRequired nat | KnowledgeNotNumber nat | KnowledgeTooSmall nat | KnowledgeTooBig nat
  | TooFewTechs | StillLearning

text \<open>
  Parsing returns the transformed value, or the issues, or does not return because a
  transform or a refinement threw: zod does not catch what they throw.
\<close>

datatype 'a parse_result = Parsed 'a | Invalid "issue list" | Thrown js_error

text \<open>
  \<^verbatim>\<open>avatar\<close>: a failed \<^verbatim>\<open>instanceof\<close> aborts the field, so neither the transform nor the
  refinement runs. Otherwise the transform takes \<^verbatim>\<open>list.item(0)\<close>, which is \<^verbatim>\<open>null\<close> for an
  empty list, and the refinement reads \<^verbatim>\<open>file.size\<close> of it.
\<close>

definition parse_avatar :: "avatar_value \<Rightarrow> js_file parse_result" where
  "parse_avatar v =
     (case v of
        NotFileList \<Rightarrow> Invalid [AvatarNotFileList]
      | FileList list \<Rightarrow>
          (case item list 0 of
             None \<Rightarrow> Thrown TypeError
           | Some file \<Rightarrow>
               if file_size file \<le> 5 * 1024 * 1024 then Parsed file
               else Invalid [AvatarTooLarge]))"

text \<open>
  The callback of \<^verbatim>\<open>map\<close> in the transform of \<^verbatim>\<open>name\<close>:
  \<^verbatim>\<open>word[0].toLocaleUpperCase().concat(word.substring(1))\<close>. For the empty word
  \<^verbatim>\<open>word[0]\<close> is \<^verbatim>\<open>undefined\<close> and the method call throws; otherwise \<^verbatim>\<open>word[0]\<close> is
  the string of the first code unit.
\<close>

fun capitalize :: "platform \<Rightarrow> js_string \<Rightarrow> js_error + js_string" where
  "capitalize p [] = Inl TypeError"
| "capitalize p (c # cs) = Inr (toLocaleUpperCase p [c] @ cs)"

text \<open>\<^verbatim>\<open>words.map(f)\<close> for a callback that may throw: the first throw ends the loop.\<close>

fun map_throwing :: "('a \<Rightarrow> js_error + 'b) \<Rightarrow> 'a list \<Rightarrow> js_error + 'b list" where
  "map_throwing f [] = Inr []"
| "map_throwing f (x # xs) =
     (case f x of
        Inl e \<Rightarrow> Inl e
      | Inr y \<Rightarrow> (case map_throwing f xs of Inl e \<Rightarrow> Inl e | Inr ys \<Rightarrow> Inr (y # ys)))"

definition transform_name :: "platform \<Rightarrow> js_string \<Rightarrow> js_error + js_string" where
  "transform_name p n =
     (case map_throwing (capitalize p) (split 0x20 (trim n)) of
        Inl e \<Rightarrow> Inl e
      | Inr ws \<Rightarrow> Inr (join [0x20] ws))"

text \<open>\<^verbatim>\<open>name\<close>: the transform runs only when \<^verbatim>\<open>nonempty\<close> has passed.\<close>

definition parse_name :: "platform \<Rightarrow> js_string \<Rightarrow> js_string parse_result" where
  "parse_name p n =
     (if n = [] then Invalid [NameRequired]
      else (case transform_name p n of Inl e \<Rightarrow> Thrown e | Inr v \<Rightarrow> Parsed v))"

text \<open>
  \<^verbatim>\<open>email\<close>: the string checks run in the order written (\<^verbatim>\<open>nonempty\<close>, \<^verbatim>\<open>email\<close>, then
  \<^verbatim>\<open>toLowerCase\<close>, which replaces the value); the refinement then sees the lower-case
  value, also when an earlier check has failed.
\<close>

definition parse_email :: "platform \<Rightarrow> js_string \<Rightarrow> js_string parse_result" where
  "parse_email p e =
     (let checks = (if e = [] then [EmailRequired] else [])
                 @ (if zod_email p e then [] else [EmailFormat]);
          lowered = toLowerCase p e;
          refined = (if endsWith lowered (ascii ''@boo.com.br'') then [] else [EmailNotBoo])
      in if checks @ refined = [] then Parsed lowered else Invalid (checks @ refined))"

text \<open>\<^verbatim>\<open>password: z.string().min(6, ...)\<close>\<close>

definition parse_password :: "js_string \<Rightarrow> js_string parse_result" where
  "parse_password w = (if length w < 6 then Invalid [PasswordTooShort] else Parsed w)"

text \<open>
  One entry of \<^verbatim>\<open>techs\<close>. The knowledge is coerced with \<^verbatim>\<open>Number\<close>; \<^verbatim>\<open>NaN\<close> is not of
  type number for zod, \<^verbatim>\<open>min(1)\<close> rejects a value below 1 and \<^verbatim>\<open>max(100)\<close> one above 100.
\<close>

definition tech_issues :: "platform \<Rightarrow> nat \<Rightarrow> tech_value \<Rightarrow> issue list" where
  "tech_issues p i t =
     (let k = Number p (knowledge_value t)
      in (if title_value t = [] then [TitleRequired i] else [])
       @ (if k = NaN then [KnowledgeNotNumber i]
          else (if js_less k (Finite 1) then [KnowledgeTooSmall i] else [])
             @ (if js_greater k (Finite 100) then [KnowledgeTooBig i] else [])))"

definition coerce_tech :: "platform \<Rightarrow> tech_value \<Rightarrow> tech" where
  "coerce_tech p t = \<lparr>title = title_value t, knowledge = Number p (knowledge_value t)\<rparr>"

text \<open>The entries with their indices, as the array schema visits them.\<close>

fun entries_issues :: "platform \<Rightarrow> nat \<Rightarrow> tech_value list \<Rightarrow> issue list" where
  "entries_issues p i [] = []"
| "entries_issues p i (t # ts) = tech_issues p i t @ entries_issues p (Suc i) ts"

text \<open>\<^verbatim>\<open>techs.some((tech) => tech.knowledge > 50)\<close>\<close>

definition some_above_50 :: "tech list \<Rightarrow> bool" where
  "some_above_50 ts = list_ex (\<lambda>tech. js_greater (knowledge tech) (Finite 50)) ts"

text \<open>
  \<^verbatim>\<open>techs\<close>: the length check of \<^verbatim>\<open>min(2)\<close>, then the entries, then the refinement, which
  zod skips when an entry was aborted by a knowledge that is not a number.
\<close>

definition parse_techs :: "platform \<Rightarrow> tech_value list \<Rightarrow> tech list parse_result" where
  "parse_techs p ts =
     (let too_few = (if length ts < 2 then [TooFewTechs] else []);
          inner = entries_issues p 0 ts;
          vs = map (coerce_tech p) ts;
          aborted = list_ex (\<lambda>v. knowledge v = NaN) vs;
          refined = (if aborted \<or> some_above_50 vs then [] else [StillLearning])
      in if too_few @ inner @ refined = [] then Parsed vs
         else Invalid (too_few @ inner @ refined))"

text \<open>What a field threw, and the issues it raised.\<close>

definition thrown_by :: "'a parse_result \<Rightarrow> js_error list" where
  "thrown_by r = (case r of Thrown e \<Rightarrow> [e] | _ \<Rightarrow> [])"

definition issues_of :: "'a parse_result \<Rightarrow> issue list" where
  "issues_of r = (case r of Invalid is \<Rightarrow> is | _ \<Rightarrow> [])"

text \<open>
  \<^verbatim>\<open>createUserFormSchema\<close>: \<^verbatim>\<open>z.object\<close> parses the five keys in the order written. What
  a field throws leaves the whole parse; otherwise the issues of all fields are collected,
  and the data is returned when there is none.
\<close>

definition createUserFormSchema :: "platform \<Rightarrow> form_values \<Rightarrow> CreateUserFormData parse_result" where
  "createUserFormSchema p v =
     (let a = parse_avatar (avatar_value v);
          n = parse_name p (name_value v);
          e = parse_email p (email_value v);
          w = parse_password (password_value v);
          t = parse_techs p (techs_value v)
      in case thrown_by a @ thrown_by n @ thrown_by e @ thrown_by w @ thrown_by t of
           err # _ \<Rightarrow> Thrown err
         | [] \<Rightarrow>
            (case (a, n, e, w, t) of
               (Parsed a', Parsed n', Parsed e', Parsed w', Parsed t') \<Rightarrow>
                 Parsed \<lparr>avatar = a', name = n', email = e', password = w', techs = t'\<rparr>
             | _ \<Rightarrow> Invalid (issues_of a @ issues_of n @ issues_of e @ issues_of w @ issues_of t)))"

subsection \<open>\<^verbatim>\<open>JSON.stringify(data, null, 2)\<close>\<close>

datatype json =
    JObject "(js_string \<times> json) list"
  | JArray "json list"
  | JString js_string
  | JNumber js_number

definition hex_digit :: "nat \<Rightarrow> code_unit" where
  "hex_digit n = ascii ''0123456789abcdef'' ! (n mod 16)"

text \<open>\<^verbatim>\<open>\uXXXX\<close>, with four lower-case hexadecimal digits.\<close>

definition unicode_escape :: "code_unit \<Rightarrow> js_string" where
  "unicode_escape c =
     [0x5C, 0x75, hex_digit (unat c div 4096), hex_digit (unat c div 256),
      hex_digit (unat c div 16), hex_digit (unat c)]"

definition is_leading_surrogate :: "code_unit \<Rightarrow> bool" where
  "is_leading_surrogate c = (0xD800 \<le> c \<and> c \<le> 0xDBFF)"

definition is_trailing_surrogate :: "code_unit \<Rightarrow> bool" where
  "is_trailing_surrogate c = (0xDC00 \<le> c \<and> c \<le> 0xDFFF)"

text \<open>
  The escape of one code unit that is not part of a surrogate pair: the quote, the
  backslash, the five short escapes, and \<^verbatim>\<open>\uXXXX\<close> for the other control characters
  and for a lone surrogate.
\<close>

definition escape_unit :: "code_unit \<Rightarrow> js_string" where
  "escape_unit c =
     (if c = 0x22 then [0x5C, 0x22]
      else if c = 0x5C then [0x5C, 0x5C]
      else if c = 0x08 then [0x5C, 0x62]
      else if c = 0x0C then [0x5C, 0x66]
      else if c = 0x0A then [0x5C, 0x6E]
      else if c = 0x0D then [0x5C, 0x72]
      else if c = 0x09 then [0x5C, 0x74]
      else if c < 0x20 \<or> is_leading_surrogate c \<or> is_trailing_surrogate c then unicode_escape c
      else [c])"

text \<open>The string is read by code points: a leading surrogate with its trailing one is kept.\<close>

fun escape_units :: "js_string \<Rightarrow> js_string" where
  "escape_units [] = []"
| "escape_units [c] = escape_unit c"
| "escape_units (c # d # cs) =
     (if is_leading_surrogate c \<and> is_trailing_surrogate d then c # d # escape_units cs
      else escape_unit c @ escape_units (d # cs))"

definition quote :: "js_string \<Rightarrow> js_string" where
  "quote s = [0x22] @ escape_units s @ [0x22]"

text \<open>
  The serialisation with a gap of two spaces; \<open>ind\<close> is the indentation of the enclosing
  value. A number that is not finite prints as \<^verbatim>\<open>null\<close>.
\<close>

fun serialize :: "platform \<Rightarrow> js_string \<Rightarrow> json \<Rightarrow> js_string"
  and serialize_items :: "platform \<Rightarrow> js_string \<Rightarrow> json list \<Rightarrow> js_string list"
  and serialize_props :: "platform \<Rightarrow> js_string \<Rightarrow> (js_string \<times> json) list \<Rightarrow> js_string list"
where
  "serialize p ind (JString s) = quote s"
| "serialize p ind (JNumber n) = (case n of Finite q \<Rightarrow> Number_toString p q | _ \<Rightarrow> ascii ''null'')"
| "serialize p ind (JArray vs) =
     (if vs = [] then ascii ''[]''
      else ascii ''['' @ [0x0A] @ ascii ''  '' @ ind
        @ join (ascii '','' @ [0x0A] @ ascii ''  '' @ ind) (serialize_items p (ascii ''  '' @ ind) vs)
        @ [0x0A] @ ind @ ascii '']'')"
| "serialize p ind (JObject kvs) =
     (if kvs = [] then ascii ''{}''
      else ascii ''{'' @ [0x0A] @ ascii ''  '' @ ind
        @ join (ascii '','' @ [0x0A] @ ascii ''  '' @ ind) (serialize_props p (ascii ''  '' @ ind) kvs)
        @ [0x0A] @ ind @ ascii ''}'')"
| "serialize_items p ind [] = []"
| "serialize_items p ind (v # vs) = serialize p ind v # serialize_items p ind vs"
| "serialize_props p ind [] = []"
| "serialize_props p ind (kv # kvs) =
     (quote (fst kv) @ ascii '': '' @ serialize p ind (snd kv)) # serialize_props p ind kvs"

text \<open>
  The data as \<^verbatim>\<open>JSON.stringify\<close> sees it: the keys in the order of the schema; a
  \<^verbatim>\<open>File\<close> has no enumerable property of its own and prints as an empty object.
\<close>

definition tech_json :: "tech \<Rightarrow> json" where
  "tech_json t =
     JObject [(ascii ''title'', JString (title t)), (ascii ''knowledge'', JNumber (knowledge t))]"

definition data_json :: "CreateUserFormData \<Rightarrow> json" where
  "data_json d =
     JObject [(ascii ''avatar'', JObject []),
              (ascii ''name'', JString (name d)),
              (ascii ''email'', JString (email d)),
              (ascii ''password'', JString (password d)),
              (ascii ''techs'', JArray (map tech_json (techs d)))]"

definition JSON_stringify :: "platform \<Rightarrow> CreateUserFormData \<Rightarrow> js_string" where
  "JSON_stringify p d = serialize p [] (data_json d)"

subsection \<open>The page and its handlers\<close>

text \<open>
  The storage call settles in one of two ways: its promise is fulfilled (with a result
  that \<^verbatim>\<open>createUser\<close> does not read, be it data or an error object) or rejected.
\<close>

datatype upload_outcome = Fulfilled | Rejected

text \<open>
  The effects of the page that are visible from outside, in the order they happen:
  \<^verbatim>\<open>supabase.storage.from(bucket).upload(path, body)\<close> is called, the awaited call settles,
  \<^verbatim>\<open>setOutput(text)\<close> is called.
\<close>

datatype event =
    UploadCalled js_string js_string js_file
  | UploadSettled upload_outcome
  | OutputSet js_string

text \<open>
  The state of the page: the \<^verbatim>\<open>output\<close> of \<^verbatim>\<open>useState\<close> (here \<open>output_state\<close>), the
  values and the errors that \<^verbatim>\<open>useForm\<close> keeps, and the trace of the effects so far.
\<close>

record app_state =
  output_state :: js_string
  form :: form_values
  errors :: "issue list"
  trace :: "event list"

text \<open>The \<^verbatim>\<open>fields\<close> of \<^verbatim>\<open>useFieldArray\<close> for \<^verbatim>\<open>techs\<close>, and its \<^verbatim>\<open>append\<close>.\<close>

definition fields :: "app_state \<Rightarrow> tech_value list" where
  "fields s = techs_value (form s)"

definition append_field :: "tech_value \<Rightarrow> app_state \<Rightarrow> app_state" where
  "append_field t s = s\<lparr>form := (form s)\<lparr>techs_value := techs_value (form s) @ [t]\<rparr>\<rparr>"

definition addNewTech :: "app_state \<Rightarrow> app_state" where
  "addNewTech s = append_field \<lparr>title_value = [], knowledge_value = JSNumber (Finite 0)\<rparr> s"

text \<open>How a handler ends: it returns, or what it threw leaves it.\<close>

datatype completion = Completed | Raised js_error

text \<open>
  \<^verbatim>\<open>createUser\<close>: the upload is called with the name of the file and the file, and awaited;
  when the promise is rejected the \<^verbatim>\<open>await\<close> throws and the function ends there, otherwise
  \<^verbatim>\<open>setOutput\<close> is called with the serialised data.
\<close>

definition createUser :: "platform \<Rightarrow> upload_outcome \<Rightarrow> CreateUserFormData \<Rightarrow> app_state \<Rightarrow> completion \<times> app_state" where
  "createUser p r data s =
     (let s1 = s\<lparr>trace := trace s @ [UploadCalled (ascii ''forms-react'') (file_name (avatar data)) (avatar data),
                                      UploadSettled r]\<rparr>
      in case r of
           Rejected \<Rightarrow> (Raised UploadFailure, s1)
         | Fulfilled \<Rightarrow>
             (let text = JSON_stringify p data
              in (Completed, s1\<lparr>output_state := text, trace := trace s1 @ [OutputSet text]\<rparr>)))"

text \<open>
  \<^verbatim>\<open>handleSubmit(createUser)\<close> with the zod resolver: the form values are parsed; what the
  parse throws leaves the handler; issues become the errors of the form and the callback is
  not called; otherwise the errors are cleared and the callback gets the parsed data.
\<close>

definition handleSubmit :: "platform \<Rightarrow> upload_outcome \<Rightarrow> app_state \<Rightarrow> completion \<times> app_state" where
  "handleSubmit p r s =
     (case createUserFormSchema p (form s) of
        Thrown e \<Rightarrow> (Raised e, s)
      | Invalid is \<Rightarrow> (Completed, s\<lparr>errors := is\<rparr>)
      | Parsed data \<Rightarrow> createUser p r data (s\<lparr>errors := []\<rparr>))"

text \<open>The events that a submission adds to the trace.\<close>

definition submission_events :: "platform \<Rightarrow> upload_outcome \<Rightarrow> app_state \<Rightarrow> event list" where
  "submission_events p r s = drop (length (trace s)) (trace (snd (handleSubmit p r s)))"

fun is_upload_call :: "event \<Rightarrow> bool" where
  "is_upload_call (UploadCalled _ _ _) = True"
| "is_upload_call _ = False"

subsection \<open>A concrete platform and concrete inputs\<close>

text \<open>
  The theorems hold for every platform. To run the model on an input, one platform is fixed
  here. An address is taken to be well formed when it has an \<open>@\<close> and no space.
  \<^verbatim>\<open>Number\<close> reads a string of decimal digits (the empty string gives 0, as in the
  language) and gives \<^verbatim>\<open>NaN\<close> on anything else, and a number prints as the decimal
  digits of its integer part, which suffices for the whole numbers from 0 to 999. Upper case
  is that of a host without rules of its own for the locale, on the code units of Latin-1:
  the letters \<open>a\<close> to \<open>z\<close> and the accented small letters move down by \<open>0x20\<close>, the
  sharp s becomes \<open>SS\<close>, the y with diaeresis and the micro sign get their capitals
  beyond Latin-1; code units beyond Latin-1 are left as they are, in both directions. The
  inputs below are Latin-1 strings and whole numbers.
\<close>

fun digits_value :: "nat \<Rightarrow> js_string \<Rightarrow> nat option" where
  "digits_value acc [] = Some acc"
| "digits_value acc (c # cs) =
     (if 0x30 \<le> c \<and> c \<le> 0x39 then digits_value (10 * acc + (unat c - 48)) cs else None)"

text \<open>The decimal digits of a natural number below 1000.\<close>

definition show_small :: "nat \<Rightarrow> js_string" where
  "show_small n =
     (if n < 10 then [ascii ''0123456789'' ! n]
      else if n < 100 then [ascii ''0123456789'' ! (n div 10), ascii ''0123456789'' ! (n mod 10)]
      else [ascii ''0123456789'' ! (n div 100 mod 10), ascii ''0123456789'' ! (n div 10 mod 10),
            ascii ''0123456789'' ! (n mod 10)])"

definition upper_latin1 :: "code_unit \<Rightarrow> js_string" where
  "upper_latin1 c =
     (if (0x61 \<le> c \<and> c \<le> 0x7A) \<or> (0xE0 \<le> c \<and> c \<le> 0xF6) \<or> (0xF8 \<le> c \<and> c \<le> 0xFE)
      then [c - 0x20]
      else if c = 0xDF then ascii ''SS''
      else if c = 0xFF then [0x0178]
      else if c = 0xB5 then [0x039C]
      else [c])"

definition example_platform :: platform where
  "example_platform =
     \<lparr>zod_email = (\<lambda>s. 0x40 \<in> set s \<and> 0x20 \<notin> set s),
      Number_of_string = (\<lambda>s. case digits_value 0 s of Some n \<Rightarrow> Finite (of_nat n) | None \<Rightarrow> NaN),
      Number_toString = (\<lambda>q. show_small (nat \<lfloor>q\<rfloor>)),
      toLocaleUpperCase = (\<lambda>s. concat (map upper_latin1 s)),
      toLowerCase_beyond_latin1 = (\<lambda>s. map lower_latin1 s)\<rparr>"

definition example_file :: js_file where
  "example_file = \<lparr>file_name = ascii ''me.png'', file_bytes = ''abc''\<rparr>"

definition example_techs :: "tech_value list" where
  "example_techs =
     [\<lparr>title_value = ascii ''react'', knowledge_value = JSString (ascii ''60'')\<rparr>,
      \<lparr>title_value = ascii ''zod'', knowledge_value = JSNumber (Finite 1)\<rparr>]"

definition example_form :: form_values where
  "example_form =
     \<lparr>avatar_value = FileList [example_file],
      name_value = ascii ''ana maria'',
      email_value = ascii ''Ana@BOO.com.br'',
      password_value = ascii ''123456'',
      techs_value = example_techs\<rparr>"

definition example_data :: CreateUserFormData where
  "example_data =
     \<lparr>avatar = example_file,
      name = ascii ''Ana Maria'',
      email = ascii ''ana@boo.com.br'',
      password = ascii ''123456'',
      techs = [\<lparr>title = ascii ''react'', knowledge = Finite 60\<rparr>,
               \<lparr>title = ascii ''zod'', knowledge = Finite 1\<rparr>]\<rparr>"

text \<open>A page whose form holds the example values, and the same page with the name left empty.\<close>

definition example_state :: app_state where
  "example_state = \<lparr>output_state = [], form = example_form, errors = [], trace = []\<rparr>"

definition nameless_state :: app_state where
  "nameless_state = example_state\<lparr>form := example_form\<lparr>name_value := []\<rparr>\<rparr>"

text \<open>
  A second form, with letters beyond ASCII and a password that has every kind of character
  that JSON escapes. The name starts with a small e with acute accent (\<open>0xE9\<close>), the
  address with the capital one (\<open>0xC9\<close>). The password is: quote, backslash, backspace,
  form feed, line feed, carriage return, tab, the control characters 1 and \<open>0x1F\<close>, delete,
  a leading surrogate on its own, a surrogate pair, a trailing surrogate on its own.
\<close>

definition accented_password :: js_string where
  "accented_password =
     [0x22, 0x5C, 0x08, 0x0C, 0x0A, 0x0D, 0x09, 0x01, 0x1F, 0x7F, 0xD83D, 0xD83D, 0xDE00, 0xDE00]"

definition accented_form :: form_values where
  "accented_form =
     \<lparr>avatar_value = FileList [example_file],
      name_value = 0xE9 # ascii ''rica silva'',
      email_value = 0xC9 # ascii ''RICA@BOO.COM.BR'',
      password_value = accented_password,
      techs_value = example_techs\<rparr>"

definition accented_data :: CreateUserFormData where
  "accented_data =
     \<lparr>avatar = example_file,
      name = 0xC9 # ascii ''rica Silva'',
      email = 0xE9 # ascii ''rica@boo.com.br'',
      password = accented_password,
      techs = [\<lparr>title = ascii ''react'', knowledge = Finite 60\<rparr>,
               \<lparr>title = ascii ''zod'', knowledge = Finite 1\<rparr>]\<rparr>"

definition accented_state :: app_state where
  "accented_state = \<lparr>output_state = [], form = accented_form, errors = [], trace = []\<rparr>"

section \<open>Auxiliary facts\<close>

lemma split_not_Nil: "split d s \<noteq> []"
  by (induction s) (auto split: list.splits)

lemma map_throwing_capitalize_Inl:
  "[] \<in> set ws \<Longrightarrow> map_throwing (capitalize p) ws = Inl TypeError"
proof (induction ws)
  case Nil
  then show ?case by simp
next
  case (Cons w ws)
  show ?case
  proof (cases w)
    case Nil
    then show ?thesis by simp
  next
    case (Cons c cs)
    with Cons.prems have "[] \<in> set ws" by simp
    then have "map_throwing (capitalize p) ws = Inl TypeError" by (rule Cons.IH)
    with Cons show ?thesis by simp
  qed
qed

lemma map_throwing_capitalize_Inr:
  "[] \<notin> set ws \<Longrightarrow>
   map_throwing (capitalize p) ws = Inr (map (\<lambda>w. toLocaleUpperCase p (take 1 w) @ drop 1 w) ws)"
proof (induction ws)
  case Nil
  then show ?case by simp
next
  case (Cons w ws)
  then obtain c cs where w: "w = c # cs" by (cases w) auto
  from Cons have "map_throwing (capitalize p) ws = Inr (map (\<lambda>w. toLocaleUpperCase p (take 1 w) @ drop 1 w) ws)"
    by simp
  with w show ?case by simp
qed

lemma parse_name_Thrown:
  "n \<noteq> [] \<Longrightarrow> [] \<in> set (split 0x20 (trim n)) \<Longrightarrow> parse_name p n = Thrown TypeError"
  by (simp add: parse_name_def transform_name_def map_throwing_capitalize_Inl)

lemma parse_name_Parsed:
  "n \<noteq> [] \<Longrightarrow> [] \<notin> set (split 0x20 (trim n)) \<Longrightarrow>
   parse_name p n = Parsed (join [0x20] (map (\<lambda>w. toLocaleUpperCase p (take 1 w) @ drop 1 w) (split 0x20 (trim n))))"
  by (simp add: parse_name_def transform_name_def map_throwing_capitalize_Inr)

lemma parse_name_Parsed_iff:
  "parse_name p n = Parsed v \<longleftrightarrow>
     n \<noteq> [] \<and> [] \<notin> set (split 0x20 (trim n)) \<and>
     v = join [0x20] (map (\<lambda>w. toLocaleUpperCase p (take 1 w) @ drop 1 w) (split 0x20 (trim n)))"
proof (cases "n = []")
  case True
  then show ?thesis by (simp add: parse_name_def)
next
  case False
  show ?thesis
  proof (cases "[] \<in> set (split 0x20 (trim n))")
    case True
    with False show ?thesis by (simp add: parse_name_Thrown)
  next
    case no_empty: False
    with False show ?thesis by (auto simp: parse_name_Parsed)
  qed
qed

lemma parse_name_thrown_by: "thrown_by (parse_name p n) = [] \<or> thrown_by (parse_name p n) = [TypeError]"
proof (cases "n = []")
  case True
  then show ?thesis by (simp add: parse_name_def thrown_by_def)
next
  case False
  show ?thesis
  proof (cases "[] \<in> set (split 0x20 (trim n))")
    case True
    with False show ?thesis by (simp add: parse_name_Thrown thrown_by_def)
  next
    case no_empty: False
    with False show ?thesis by (simp add: parse_name_Parsed thrown_by_def)
  qed
qed

lemma parse_avatar_Parsed_iff:
  "parse_avatar a = Parsed f \<longleftrightarrow>
     (\<exists>fs. a = FileList (f # fs)) \<and> file_size f \<le> 5 * 1024 * 1024"
  by (cases a; cases "case a of FileList l \<Rightarrow> l | _ \<Rightarrow> []")
     (auto simp: parse_avatar_def item_def split: if_splits)

lemma parse_avatar_thrown_by: "thrown_by (parse_avatar a) = [] \<or> thrown_by (parse_avatar a) = [TypeError]"
  by (auto simp: parse_avatar_def thrown_by_def split: avatar_value.splits option.splits)

lemma parse_email_Parsed_iff:
  "parse_email p e = Parsed v \<longleftrightarrow>
     e \<noteq> [] \<and> zod_email p e \<and> endsWith (toLowerCase p e) (ascii ''@boo.com.br'') \<and> v = toLowerCase p e"
  by (auto simp: parse_email_def Let_def)

lemma parse_email_not_Thrown: "thrown_by (parse_email p e) = []"
  by (simp add: parse_email_def thrown_by_def Let_def)

lemma parse_password_Parsed_iff:
  "parse_password w = Parsed v \<longleftrightarrow> 6 \<le> length w \<and> v = w"
  by (auto simp: parse_password_def)

lemma parse_password_not_Thrown: "thrown_by (parse_password w) = []"
  by (simp add: parse_password_def thrown_by_def)

lemma parse_techs_not_Thrown: "thrown_by (parse_techs p ts) = []"
  by (simp add: parse_techs_def thrown_by_def Let_def)

lemma schema_Parsed_iff:
  "createUserFormSchema p v = Parsed d \<longleftrightarrow>
     parse_avatar (avatar_value v) = Parsed (avatar d) \<and>
     parse_name p (name_value v) = Parsed (name d) \<and>
     parse_email p (email_value v) = Parsed (email d) \<and>
     parse_password (password_value v) = Parsed (password d) \<and>
     parse_techs p (techs_value v) = Parsed (techs d)"
  by (cases d)
     (auto simp: createUserFormSchema_def Let_def thrown_by_def issues_of_def
           split: parse_result.splits list.splits)

lemma schema_Thrown_TypeError:
  assumes "createUserFormSchema p v = Thrown e"
  shows "e = TypeError"
proof -
  let ?th = "thrown_by (parse_avatar (avatar_value v)) @ thrown_by (parse_name p (name_value v))
           @ thrown_by (parse_email p (email_value v)) @ thrown_by (parse_password (password_value v))
           @ thrown_by (parse_techs p (techs_value v))"
  have th: "?th = thrown_by (parse_avatar (avatar_value v)) @ thrown_by (parse_name p (name_value v))"
    by (simp add: parse_email_not_Thrown parse_password_not_Thrown parse_techs_not_Thrown)
  from assms obtain es where "?th = e # es"
    by (auto simp: createUserFormSchema_def Let_def split: list.splits parse_result.splits)
  with th have "thrown_by (parse_avatar (avatar_value v)) @ thrown_by (parse_name p (name_value v)) = e # es"
    by simp
  with parse_avatar_thrown_by [of "avatar_value v"] parse_name_thrown_by [of p "name_value v"]
  show ?thesis by auto
qed

lemma schema_name_Thrown:
  assumes "parse_name p (name_value v) = Thrown TypeError"
  shows "createUserFormSchema p v = Thrown TypeError"
proof -
  from assms have "thrown_by (parse_name p (name_value v)) = [TypeError]"
    by (simp add: thrown_by_def)
  with parse_avatar_thrown_by [of "avatar_value v"] show ?thesis
    by (auto simp: createUserFormSchema_def Let_def)
qed

lemma tech_issues_Nil_iff:
  "tech_issues p i t = [] \<longleftrightarrow>
     title_value t \<noteq> [] \<and> (\<exists>q. Number p (knowledge_value t) = Finite q \<and> 1 \<le> q \<and> q \<le> 100)"
  by (cases "Number p (knowledge_value t)")
     (auto simp: tech_issues_def js_greater_def Let_def)

lemma entries_issues_Nil_iff:
  "entries_issues p i ts = [] \<longleftrightarrow>
     (\<forall>t\<in>set ts. title_value t \<noteq> [] \<and>
        (\<exists>q. Number p (knowledge_value t) = Finite q \<and> 1 \<le> q \<and> q \<le> 100))"
  by (induction ts arbitrary: i) (simp_all add: tech_issues_Nil_iff)

lemma some_above_50_coerce:
  "some_above_50 (map (coerce_tech p) ts) \<longleftrightarrow>
     (\<exists>t\<in>set ts. js_greater (Number p (knowledge_value t)) (Finite 50))"
  by (simp add: some_above_50_def list_ex_iff coerce_tech_def)

lemma parse_techs_Parsed_iff:
  "parse_techs p ts = Parsed vs \<longleftrightarrow>
     2 \<le> length ts \<and>
     (\<forall>t\<in>set ts. title_value t \<noteq> [] \<and>
        (\<exists>q. Number p (knowledge_value t) = Finite q \<and> 1 \<le> q \<and> q \<le> 100)) \<and>
     (\<exists>t\<in>set ts. js_greater (Number p (knowledge_value t)) (Finite 50)) \<and>
     vs = map (coerce_tech p) ts"
proof (cases "entries_issues p 0 ts = []")
  case True
  then have ok: "\<forall>t\<in>set ts. title_value t \<noteq> [] \<and>
        (\<exists>q. Number p (knowledge_value t) = Finite q \<and> 1 \<le> q \<and> q \<le> 100)"
    by (simp add: entries_issues_Nil_iff)
  then have "\<not> list_ex (\<lambda>v. knowledge v = NaN) (map (coerce_tech p) ts)"
    by (auto simp: list_ex_iff coerce_tech_def)
  with True ok show ?thesis
    unfolding parse_techs_def Let_def some_above_50_coerce by auto
next
  case False
  then have "\<not> (\<forall>t\<in>set ts. title_value t \<noteq> [] \<and>
        (\<exists>q. Number p (knowledge_value t) = Finite q \<and> 1 \<le> q \<and> q \<le> 100))"
    by (simp add: entries_issues_Nil_iff)
  with False show ?thesis
    unfolding parse_techs_def Let_def by auto
qed

lemma handleSubmit_Parsed:
  "createUserFormSchema p (form s) = Parsed d \<Longrightarrow>
   handleSubmit p r s = createUser p r d (s\<lparr>errors := []\<rparr>)"
  by (simp add: handleSubmit_def)

lemma createUser_trace:
  "trace (snd (createUser p r d s)) =
     trace s @ UploadCalled (ascii ''forms-react'') (file_name (avatar d)) (avatar d) # UploadSettled r #
       (case r of Fulfilled \<Rightarrow> [OutputSet (JSON_stringify p d)] | Rejected \<Rightarrow> [])"
  by (cases r) (simp_all add: createUser_def Let_def)

lemma createUser_output:
  "output_state (snd (createUser p r d s)) =
     (case r of Fulfilled \<Rightarrow> JSON_stringify p d | Rejected \<Rightarrow> output_state s)"
  by (cases r) (simp_all add: createUser_def Let_def)

lemma submission_events_Parsed:
  "createUserFormSchema p (form s) = Parsed d \<Longrightarrow>
   submission_events p r s =
     UploadCalled (ascii ''forms-react'') (file_name (avatar d)) (avatar d) # UploadSettled r #
       (case r of Fulfilled \<Rightarrow> [OutputSet (JSON_stringify p d)] | Rejected \<Rightarrow> [])"
  by (simp add: submission_events_def handleSubmit_Parsed createUser_trace)

lemma handleSubmit_rejected:
  assumes "\<forall>d. createUserFormSchema p (form s) \<noteq> Parsed d"
  shows "trace (snd (handleSubmit p r s)) = trace s"
    and "output_state (snd (handleSubmit p r s)) = output_state s"
    and "form (snd (handleSubmit p r s)) = form s"
  using assms
  by (cases "createUserFormSchema p (form s)"; simp add: handleSubmit_def)+

lemma submission_events_rejected:
  "\<forall>d. createUserFormSchema p (form s) \<noteq> Parsed d \<Longrightarrow> submission_events p r s = []"
  by (simp add: submission_events_def handleSubmit_rejected)

lemma handleSubmit_trace:
  "trace (snd (handleSubmit p r s)) = trace s @ submission_events p r s"
proof (cases "createUserFormSchema p (form s)")
  case (Parsed d)
  then show ?thesis
    by (simp add: submission_events_Parsed handleSubmit_Parsed createUser_trace)
next
  case (Invalid issues)
  then have "\<forall>d. createUserFormSchema p (form s) \<noteq> Parsed d" by simp
  then show ?thesis
    by (simp add: submission_events_rejected handleSubmit_rejected)
next
  case (Thrown e)
  then have "\<forall>d. createUserFormSchema p (form s) \<noteq> Parsed d" by simp
  then show ?thesis
    by (simp add: submission_events_rejected handleSubmit_rejected)
qed

text \<open>The example forms are accepted, and the form without a name is not.\<close>

lemma schema_example:
  "createUserFormSchema example_platform example_form = Parsed example_data"
  by (simp add: createUserFormSchema_def example_form_def example_data_def example_file_def
      example_techs_def example_platform_def parse_avatar_def item_def file_size_def
      parse_name_def transform_name_def trim_def is_white_space_def upper_latin1_def
      parse_email_def toLowerCase_def is_latin1_def is_latin1_capital_def lower_latin1_def
      endsWith_def parse_password_def parse_techs_def tech_issues_def ascii_def
      coerce_tech_def some_above_50_def js_greater_def thrown_by_def issues_of_def Let_def)

lemma schema_accented:
  "createUserFormSchema example_platform accented_form = Parsed accented_data"
  by (simp add: createUserFormSchema_def accented_form_def accented_data_def example_file_def
      accented_password_def
      example_techs_def example_platform_def parse_avatar_def item_def file_size_def
      parse_name_def transform_name_def trim_def is_white_space_def upper_latin1_def
      parse_email_def toLowerCase_def is_latin1_def is_latin1_capital_def lower_latin1_def
      endsWith_def parse_password_def parse_techs_def tech_issues_def ascii_def
      coerce_tech_def some_above_50_def js_greater_def thrown_by_def issues_of_def Let_def)

lemma schema_nameless:
  "createUserFormSchema example_platform (example_form\<lparr>name_value := []\<rparr>) = Invalid [NameRequired]"
  by (simp add: createUserFormSchema_def example_form_def example_file_def
      example_techs_def example_platform_def parse_avatar_def item_def file_size_def
      parse_name_def parse_email_def toLowerCase_def is_latin1_def is_latin1_capital_def
      lower_latin1_def endsWith_def parse_password_def parse_techs_def tech_issues_def ascii_def
      coerce_tech_def some_above_50_def js_greater_def thrown_by_def issues_of_def Let_def)

text \<open>
  Without a \<^verbatim>\<open>FileList\<close> under \<^verbatim>\<open>avatar\<close> the schema accepts nothing. The input that
  would supply one is commented out in the form that \<^verbatim>\<open>App\<close> renders.
\<close>

lemma schema_requires_FileList:
  "avatar_value v = NotFileList \<Longrightarrow> createUserFormSchema p v \<noteq> Parsed d"
  by (simp add: schema_Parsed_iff parse_avatar_Parsed_iff)

text \<open>Lower case on Latin-1: the conversion stays in Latin-1 and leaves no capital.\<close>

lemma lower_latin1_is_latin1: "is_latin1 c \<Longrightarrow> is_latin1 (lower_latin1 c)"
  unfolding is_latin1_def lower_latin1_def is_latin1_capital_def
  by (auto simp: word_le_nat_alt word_less_nat_alt unat_word_ariths)

lemma lower_latin1_not_capital: "\<not> is_latin1_capital (lower_latin1 c)"
  unfolding lower_latin1_def is_latin1_capital_def
  by (auto simp: word_le_nat_alt unat_word_ariths)

lemma lower_latin1_idem: "lower_latin1 (lower_latin1 c) = lower_latin1 c"
  using lower_latin1_not_capital [of c] by (simp add: lower_latin1_def [of "lower_latin1 c"])

lemma toLowerCase_latin1:
  "list_all is_latin1 s \<Longrightarrow> toLowerCase p s = map lower_latin1 s"
  by (simp add: toLowerCase_def)

lemma toLowerCase_latin1_stays: "list_all is_latin1 s \<Longrightarrow> list_all is_latin1 (toLowerCase p s)"
  by (simp add: toLowerCase_latin1 list_all_iff lower_latin1_is_latin1)

lemma toLowerCase_latin1_idem:
  "list_all is_latin1 s \<Longrightarrow> toLowerCase p (toLowerCase p s) = toLowerCase p s"
  using toLowerCase_latin1_stays [of s p]
  by (simp add: toLowerCase_latin1 lower_latin1_idem)

lemma example_toLowerCase_idem:
  "toLowerCase example_platform (toLowerCase example_platform s) = toLowerCase example_platform s"
proof (cases "list_all is_latin1 s")
  case True
  then show ?thesis by (rule toLowerCase_latin1_idem)
next
  case False
  then have first: "toLowerCase example_platform s = map lower_latin1 s"
    by (simp add: toLowerCase_def example_platform_def)
  show ?thesis
  proof (cases "list_all is_latin1 (map lower_latin1 s)")
    case True
    then show ?thesis by (simp add: first toLowerCase_latin1 lower_latin1_idem)
  next
    case False
    then show ?thesis
      by (simp add: first toLowerCase_def example_platform_def lower_latin1_idem)
  qed
qed

section \<open>Properties of the form\<close>

subsection \<open>C1: what a submission uploads\<close>

text \<open>
  C1, as amended. On every submission whose values the schema accepts, \<^verbatim>\<open>createUser\<close>
  calls the storage upload of the bucket \<^verbatim>\<open>forms-react\<close> exactly with the name of the
  parsed avatar file and the file itself, whatever the call answers; the file is the first
  one of the \<^verbatim>\<open>FileList\<close> in the form.
\<close>

theorem accepted_submission_uploads_avatar:
  assumes "createUserFormSchema p (form s) = Parsed d"
  shows "filter is_upload_call (submission_events p r s) =
           [UploadCalled (ascii ''forms-react'') (file_name (avatar d)) (avatar d)]
         \<and> (\<exists>rest. avatar_value (form s) = FileList (avatar d # rest))"
proof -
  from assms have "parse_avatar (avatar_value (form s)) = Parsed (avatar d)"
    by (simp add: schema_Parsed_iff)
  then have first: "\<exists>rest. avatar_value (form s) = FileList (avatar d # rest)"
    by (simp add: parse_avatar_Parsed_iff)
  have "filter is_upload_call (submission_events p r s) =
          [UploadCalled (ascii ''forms-react'') (file_name (avatar d)) (avatar d)]"
    by (cases r) (simp_all add: submission_events_Parsed [OF assms])
  with first show ?thesis by simp
qed

text \<open>The example form is accepted, and the one upload carries \<^verbatim>\<open>me.png\<close>.\<close>

theorem accepted_submission_uploads_avatar_witness:
  "createUserFormSchema example_platform (form example_state) = Parsed example_data
   \<and> filter is_upload_call (submission_events example_platform Rejected example_state) =
       [UploadCalled (ascii ''forms-react'') (ascii ''me.png'') example_file]"
proof -
  have accepted: "createUserFormSchema example_platform (form example_state) = Parsed example_data"
    by (simp add: example_state_def schema_example)
  from accepted_submission_uploads_avatar [OF accepted, of Rejected] accepted
  show ?thesis by (simp add: example_data_def example_file_def)
qed

text \<open>
  C1 as stated fails: a submission that carries an avatar file but no name is stopped by
  the schema, and nothing is uploaded.
\<close>

theorem every_submission_uploads_counterexample:
  "avatar_value (form nameless_state) = FileList [example_file]
   \<and> filter is_upload_call (submission_events example_platform Fulfilled nameless_state) = []"
proof -
  have "\<forall>d. createUserFormSchema example_platform (form nameless_state) \<noteq> Parsed d"
    by (simp add: nameless_state_def example_state_def schema_nameless)
  then have "submission_events example_platform Fulfilled nameless_state = []"
    by (rule submission_events_rejected)
  then show ?thesis
    by (simp add: nameless_state_def example_state_def example_form_def)
qed

subsection \<open>C2: a rejected submission has no effect\<close>

text \<open>
  C2. When a field fails validation (an empty name, an address that is malformed or, in
  lower case, does not end in \<^verbatim>\<open>@boo.com.br\<close>, a password of fewer than 6 characters,
  fewer than two techs, an empty tech title, a knowledge that is not a number from 1 to 100,
  no knowledge above 50), or the schema does not accept the values for any other reason,
  then the schema does not return parsed data, \<^verbatim>\<open>createUser\<close> is not called: the
  submission adds no event (no upload) and leaves the output as it was.
\<close>

theorem rejected_submission_no_effect:
  assumes "name_value (form s) = []
         \<or> \<not> zod_email p (email_value (form s))
         \<or> \<not> endsWith (toLowerCase p (email_value (form s))) (ascii ''@boo.com.br'')
         \<or> length (password_value (form s)) < 6
         \<or> length (techs_value (form s)) < 2
         \<or> (\<exists>t\<in>set (techs_value (form s)). title_value t = [])
         \<or> (\<exists>t\<in>set (techs_value (form s)).
               \<not> (\<exists>q. Number p (knowledge_value t) = Finite q \<and> 1 \<le> q \<and> q \<le> 100))
         \<or> \<not> (\<exists>t\<in>set (techs_value (form s)). js_greater (Number p (knowledge_value t)) (Finite 50))
         \<or> (\<forall>d. createUserFormSchema p (form s) \<noteq> Parsed d)"
  shows "(\<forall>d. createUserFormSchema p (form s) \<noteq> Parsed d)
       \<and> submission_events p r s = []
       \<and> trace (snd (handleSubmit p r s)) = trace s
       \<and> output_state (snd (handleSubmit p r s)) = output_state s"
proof -
  have rejected: "\<forall>d. createUserFormSchema p (form s) \<noteq> Parsed d"
  proof (intro allI notI)
    fix d
    assume parsed: "createUserFormSchema p (form s) = Parsed d"
    then have n: "name_value (form s) \<noteq> []"
      and e: "zod_email p (email_value (form s))"
             "endsWith (toLowerCase p (email_value (form s))) (ascii ''@boo.com.br'')"
      and w: "6 \<le> length (password_value (form s))"
      and t: "parse_techs p (techs_value (form s)) = Parsed (techs d)"
      by (simp_all add: schema_Parsed_iff parse_name_Parsed_iff parse_email_Parsed_iff
            parse_password_Parsed_iff)
    from t have "2 \<le> length (techs_value (form s))"
      and "\<forall>t\<in>set (techs_value (form s)). title_value t \<noteq> [] \<and>
             (\<exists>q. Number p (knowledge_value t) = Finite q \<and> 1 \<le> q \<and> q \<le> 100)"
      and "\<exists>t\<in>set (techs_value (form s)). js_greater (Number p (knowledge_value t)) (Finite 50)"
      by (simp_all add: parse_techs_Parsed_iff)
    with n e w parsed assms show False by auto
  qed
  then show ?thesis
    by (simp add: submission_events_rejected handleSubmit_rejected)
qed

text \<open>The form without a name: no event, and the output stays empty.\<close>

theorem rejected_submission_no_effect_witness:
  "name_value (form nameless_state) = []
   \<and> submission_events example_platform Fulfilled nameless_state = []
   \<and> output_state (snd (handleSubmit example_platform Fulfilled nameless_state)) = []"
proof -
  have empty: "name_value (form nameless_state) = []"
    by (simp add: nameless_state_def)
  then have "name_value (form nameless_state) = []
         \<or> \<not> zod_email example_platform (email_value (form nameless_state))
         \<or> \<not> endsWith (toLowerCase example_platform (email_value (form nameless_state))) (ascii ''@boo.com.br'')
         \<or> length (password_value (form nameless_state)) < 6
         \<or> length (techs_value (form nameless_state)) < 2
         \<or> (\<exists>t\<in>set (techs_value (form nameless_state)). title_value t = [])
         \<or> (\<exists>t\<in>set (techs_value (form nameless_state)).
               \<not> (\<exists>q. Number example_platform (knowledge_value t) = Finite q \<and> 1 \<le> q \<and> q \<le> 100))
         \<or> \<not> (\<exists>t\<in>set (techs_value (form nameless_state)).
                 js_greater (Number example_platform (knowledge_value t)) (Finite 50))
         \<or> (\<forall>d. createUserFormSchema example_platform (form nameless_state) \<noteq> Parsed d)"
    by (rule disjI1)
  from rejected_submission_no_effect [OF this, of Fulfilled] empty
  show ?thesis by (simp add: nameless_state_def example_state_def)
qed

subsection \<open>C3: the output is set after the upload has settled\<close>

text \<open>
  C3. Among the events of a submission, every \<^verbatim>\<open>setOutput\<close> comes after the event that
  the awaited upload was fulfilled, which itself comes after the call of the upload: the
  output is never set before the upload has finished.
\<close>

theorem output_set_after_upload_settled:
  assumes "i < length (submission_events p r s)"
    and "submission_events p r s ! i = OutputSet t"
  shows "\<exists>j<i. submission_events p r s ! j = UploadSettled Fulfilled
           \<and> (\<exists>k<j. is_upload_call (submission_events p r s ! k))"
proof (cases "createUserFormSchema p (form s)")
  case (Parsed d)
  show ?thesis
  proof (cases r)
    case Fulfilled
    with Parsed have es: "submission_events p r s =
        [UploadCalled (ascii ''forms-react'') (file_name (avatar d)) (avatar d),
         UploadSettled Fulfilled, OutputSet (JSON_stringify p d)]"
      by (simp add: submission_events_Parsed)
    with assms have "i = 2"
      by (cases i; cases "i - 1"; simp)
    with es have "1 < i \<and> submission_events p r s ! 1 = UploadSettled Fulfilled
         \<and> (0::nat) < 1 \<and> is_upload_call (submission_events p r s ! 0)"
      by simp
    then show ?thesis by blast
  next
    case Rejected
    with Parsed have "submission_events p r s =
        [UploadCalled (ascii ''forms-react'') (file_name (avatar d)) (avatar d), UploadSettled Rejected]"
      by (simp add: submission_events_Parsed)
    with assms show ?thesis
      by (cases i; cases "i - 1"; simp)
  qed
next
  case (Invalid issues)
  then have "submission_events p r s = []"
    by (simp add: submission_events_rejected)
  with assms show ?thesis by simp
next
  case (Thrown e)
  then have "submission_events p r s = []"
    by (simp add: submission_events_rejected)
  with assms show ?thesis by simp
qed

text \<open>In the example the output is the third event, and the second says the upload was fulfilled.\<close>

theorem output_set_after_upload_settled_witness:
  "2 < length (submission_events example_platform Fulfilled example_state)
   \<and> submission_events example_platform Fulfilled example_state ! 2
       = OutputSet (JSON_stringify example_platform example_data)
   \<and> submission_events example_platform Fulfilled example_state ! 1 = UploadSettled Fulfilled
   \<and> is_upload_call (submission_events example_platform Fulfilled example_state ! 0)"
proof -
  have accepted: "createUserFormSchema example_platform (form example_state) = Parsed example_data"
    by (simp add: example_state_def schema_example)
  have len: "2 < length (submission_events example_platform Fulfilled example_state)"
    by (simp add: submission_events_Parsed [OF accepted])
  have out: "submission_events example_platform Fulfilled example_state ! 2
       = OutputSet (JSON_stringify example_platform example_data)"
    by (simp add: submission_events_Parsed [OF accepted])
  from output_set_after_upload_settled [OF len out]
  obtain j k where "j < 2" and "k < j"
    and settled: "submission_events example_platform Fulfilled example_state ! j = UploadSettled Fulfilled"
    and called: "is_upload_call (submission_events example_platform Fulfilled example_state ! k)"
    by blast
  then have "j = 1" and "k = 0" by arith+
  with settled called len out show ?thesis by simp
qed

subsection \<open>C4: the text on the screen\<close>

text \<open>
  C4. After a submission that the schema accepts and whose upload is fulfilled, the output
  is the JSON text of the parsed data, not of the raw values: the name is the trimmed name
  with the first code unit of each word replaced by its \<^verbatim>\<open>toLocaleUpperCase\<close>, the
  address is the \<^verbatim>\<open>toLowerCase\<close> of the one typed, and the avatar is the first file of
  the \<^verbatim>\<open>FileList\<close>; the password is as typed and each knowledge is the coerced number.
\<close>

theorem echoed_text_is_json_of_parsed_data:
  assumes "createUserFormSchema p (form s) = Parsed d"
  shows "output_state (snd (handleSubmit p Fulfilled s)) = JSON_stringify p d
       \<and> name d = join [0x20] (map (\<lambda>w. toLocaleUpperCase p (take 1 w) @ drop 1 w)
                                 (split 0x20 (trim (name_value (form s)))))
       \<and> email d = toLowerCase p (email_value (form s))
       \<and> (\<exists>rest. avatar_value (form s) = FileList (avatar d # rest))
       \<and> password d = password_value (form s)
       \<and> techs d = map (coerce_tech p) (techs_value (form s))"
proof -
  have "output_state (snd (handleSubmit p Fulfilled s)) = JSON_stringify p d"
    by (simp add: handleSubmit_Parsed [OF assms] createUser_output)
  moreover from assms have "parse_name p (name_value (form s)) = Parsed (name d)"
    and "parse_email p (email_value (form s)) = Parsed (email d)"
    and "parse_avatar (avatar_value (form s)) = Parsed (avatar d)"
    and "parse_password (password_value (form s)) = Parsed (password d)"
    and "parse_techs p (techs_value (form s)) = Parsed (techs d)"
    by (simp_all add: schema_Parsed_iff)
  ultimately show ?thesis
    by (simp add: parse_name_Parsed_iff parse_email_Parsed_iff parse_avatar_Parsed_iff
          parse_password_Parsed_iff parse_techs_Parsed_iff)
qed

text \<open>
  For the example form, with the name \<^verbatim>\<open>ana maria\<close> and the address
  \<^verbatim>\<open>Ana@BOO.com.br\<close>, the screen shows the first text below. For the second form the
  capital of the name and the small letter of the address are accented, and the password
  shows every escape.
\<close>

theorem echoed_text_is_json_of_parsed_data_witness:
  \<open>createUserFormSchema example_platform (form example_state) = Parsed example_data
   \<and> output_state (snd (handleSubmit example_platform Fulfilled example_state)) =
      join [0x0A]
        [ascii ''{'',
         ascii ''  "avatar": {},'',
         ascii ''  "name": "Ana Maria",'',
         ascii ''  "email": "ana@boo.com.br",'',
         ascii ''  "password": "123456",'',
         ascii ''  "techs": ['',
         ascii ''    {'',
         ascii ''      "title": "react",'',
         ascii ''      "knowledge": 60'',
         ascii ''    },'',
         ascii ''    {'',
         ascii ''      "title": "zod",'',
         ascii ''      "knowledge": 1'',
         ascii ''    }'',
         ascii ''  ]'',
         ascii ''}'']
   \<and> createUserFormSchema example_platform (form accented_state) = Parsed accented_data
   \<and> output_state (snd (handleSubmit example_platform Fulfilled accented_state)) =
      join [0x0A]
        [ascii ''{'',
         ascii ''  "avatar": {},'',
         ascii ''  "name": "'' @ [0xC9] @ ascii ''rica Silva",'',
         ascii ''  "email": "'' @ [0xE9] @ ascii ''rica@boo.com.br",'',
         ascii ''  "password": "''
           @ [0x5C, 0x22, 0x5C, 0x5C, 0x5C, 0x62, 0x5C, 0x66, 0x5C, 0x6E, 0x5C, 0x72, 0x5C, 0x74]
           @ [0x5C] @ ascii ''u0001'' @ [0x5C] @ ascii ''u001f'' @ [0x7F]
           @ [0x5C] @ ascii ''ud83d'' @ [0xD83D, 0xDE00] @ [0x5C] @ ascii ''ude00''
           @ ascii ''",'',
         ascii ''  "techs": ['',
         ascii ''    {'',
         ascii ''      "title": "react",'',
         ascii ''      "knowledge": 60'',
         ascii ''    },'',
         ascii ''    {'',
         ascii ''      "title": "zod",'',
         ascii ''      "knowledge": 1'',
         ascii ''    }'',
         ascii ''  ]'',
         ascii ''}'']\<close>
proof -
  have accepted: "createUserFormSchema example_platform (form example_state) = Parsed example_data"
    by (simp add: example_state_def schema_example)
  have accepted2: "createUserFormSchema example_platform (form accented_state) = Parsed accented_data"
    by (simp add: accented_state_def schema_accented)
  have shown: \<open>JSON_stringify example_platform example_data =
      join [0x0A]
        [ascii ''{'',
         ascii ''  "avatar": {},'',
         ascii ''  "name": "Ana Maria",'',
         ascii ''  "email": "ana@boo.com.br",'',
         ascii ''  "password": "123456",'',
         ascii ''  "techs": ['',
         ascii ''    {'',
         ascii ''      "title": "react",'',
         ascii ''      "knowledge": 60'',
         ascii ''    },'',
         ascii ''    {'',
         ascii ''      "title": "zod",'',
         ascii ''      "knowledge": 1'',
         ascii ''    }'',
         ascii ''  ]'',
         ascii ''}'']\<close>
    by (simp add: JSON_stringify_def data_json_def tech_json_def example_data_def quote_def
          escape_unit_def is_leading_surrogate_def is_trailing_surrogate_def
          example_platform_def show_small_def ascii_def)
  have shown2: \<open>JSON_stringify example_platform accented_data =
      join [0x0A]
        [ascii ''{'',
         ascii ''  "avatar": {},'',
         ascii ''  "name": "'' @ [0xC9] @ ascii ''rica Silva",'',
         ascii ''  "email": "'' @ [0xE9] @ ascii ''rica@boo.com.br",'',
         ascii ''  "password": "''
           @ [0x5C, 0x22, 0x5C, 0x5C, 0x5C, 0x62, 0x5C, 0x66, 0x5C, 0x6E, 0x5C, 0x72, 0x5C, 0x74]
           @ [0x5C] @ ascii ''u0001'' @ [0x5C] @ ascii ''u001f'' @ [0x7F]
           @ [0x5C] @ ascii ''ud83d'' @ [0xD83D, 0xDE00] @ [0x5C] @ ascii ''ude00''
           @ ascii ''",'',
         ascii ''  "techs": ['',
         ascii ''    {'',
         ascii ''      "title": "react",'',
         ascii ''      "knowledge": 60'',
         ascii ''    },'',
         ascii ''    {'',
         ascii ''      "title": "zod",'',
         ascii ''      "knowledge": 1'',
         ascii ''    }'',
         ascii ''  ]'',
         ascii ''}'']\<close>
    by (simp add: JSON_stringify_def data_json_def tech_json_def accented_data_def
          accented_password_def quote_def escape_unit_def unicode_escape_def hex_digit_def
          is_leading_surrogate_def is_trailing_surrogate_def
          example_platform_def show_small_def ascii_def)
  have "output_state (snd (handleSubmit example_platform Fulfilled example_state)) =
          JSON_stringify example_platform example_data"
    using echoed_text_is_json_of_parsed_data [OF accepted] by (rule conjunct1)
  moreover have "output_state (snd (handleSubmit example_platform Fulfilled accented_state)) =
          JSON_stringify example_platform accented_data"
    using echoed_text_is_json_of_parsed_data [OF accepted2] by (rule conjunct1)
  ultimately show ?thesis
    using accepted accepted2 shown shown2 by (simp only:)
qed

subsection \<open>C5: one remote call\<close>

text \<open>
  C5. No submission calls the storage upload more than once, and a submission that the
  schema accepts calls it exactly once.
\<close>

theorem submission_one_upload_call:
  "length (filter is_upload_call (submission_events p r s)) \<le> 1
   \<and> ((\<exists>d. createUserFormSchema p (form s) = Parsed d) \<longrightarrow>
        length (filter is_upload_call (submission_events p r s)) = 1)"
proof (cases "createUserFormSchema p (form s)")
  case (Parsed d)
  then show ?thesis
    by (cases r) (simp_all add: submission_events_Parsed)
next
  case (Invalid issues)
  then show ?thesis by (simp add: submission_events_rejected)
next
  case (Thrown e)
  then show ?thesis by (simp add: submission_events_rejected)
qed

theorem submission_one_upload_call_witness:
  "(\<exists>d. createUserFormSchema example_platform (form example_state) = Parsed d)
   \<and> length (filter is_upload_call (submission_events example_platform Fulfilled example_state)) = 1"
proof -
  have "createUserFormSchema example_platform (form example_state) = Parsed example_data"
    by (simp add: example_state_def schema_example)
  then have accepted: "\<exists>d. createUserFormSchema example_platform (form example_state) = Parsed d" ..
  with submission_one_upload_call [of example_platform Fulfilled example_state]
  show ?thesis by simp
qed

subsection \<open>C6: what a submission writes\<close>




subsection \<open>C7: adding a technology\<close>

text \<open>
  C7. A click on \<^verbatim>\<open>Adicionar\<close> appends one entry, with the title \<^verbatim>\<open>""\<close> and the
  knowledge 0, at the end of the techs field array; the entries that were there stay as
  they are and in place, and nothing else on the page changes. So \<open>n\<close> clicks append
  \<open>n\<close> such entries.
\<close>

theorem addNewTech_appends_one_entry:
  "fields (addNewTech s) = fields s @ [\<lparr>title_value = [], knowledge_value = JSNumber (Finite 0)\<rparr>]
   \<and> take (length (fields s)) (fields (addNewTech s)) = fields s
   \<and> addNewTech s = s\<lparr>form := (form s)\<lparr>techs_value := fields (addNewTech s)\<rparr>\<rparr>
   \<and> fields ((addNewTech ^^ n) s) =
       fields s @ replicate n \<lparr>title_value = [], knowledge_value = JSNumber (Finite 0)\<rparr>"
proof -
  let ?blank = "\<lparr>title_value = [], knowledge_value = JSNumber (Finite 0)\<rparr>"
  have click: "fields (addNewTech s') = fields s' @ [?blank]" for s'
    by (simp add: addNewTech_def append_field_def fields_def)
  have rest: "addNewTech s = s\<lparr>form := (form s)\<lparr>techs_value := fields (addNewTech s)\<rparr>\<rparr>"
    by (simp add: addNewTech_def append_field_def fields_def)
  have clicks: "fields ((addNewTech ^^ n) s) = fields s @ replicate n ?blank"
  proof (induction n)
    case 0
    show ?case by simp
  next
    case (Suc n)
    have "fields ((addNewTech ^^ Suc n) s) = fields ((addNewTech ^^ n) s) @ [?blank]"
      by (simp add: click)
    also have "\<dots> = fields s @ replicate n ?blank @ [?blank]"
      by (simp add: Suc.IH)
    also have "\<dots> = fields s @ replicate (Suc n) ?blank"
      by (simp add: replicate_append_same)
    finally show ?case .
  qed
  from click [of s] rest clicks show ?thesis by simp
qed

theorem addNewTech_appends_one_entry_witness:
  "fields (addNewTech example_state) =
     example_techs @ [\<lparr>title_value = [], knowledge_value = JSNumber (Finite 0)\<rparr>]"
  using addNewTech_appends_one_entry [of example_state 1]
  by (simp add: fields_def example_state_def example_form_def)

subsection \<open>C8: which techs lists are accepted\<close>

text \<open>
  C8. The schema of \<^verbatim>\<open>techs\<close> accepts a list exactly when it has at least two entries,
  every title is nonempty, every knowledge is, after coercion, a number from 1 to 100, and
  some knowledge is above 50.
\<close>

theorem techs_accepted_iff:
  "(\<exists>vs. parse_techs p ts = Parsed vs) \<longleftrightarrow>
     2 \<le> length ts
     \<and> (\<forall>t\<in>set ts. title_value t \<noteq> [])
     \<and> (\<forall>t\<in>set ts. \<exists>q. Number p (knowledge_value t) = Finite q \<and> 1 \<le> q \<and> q \<le> 100)
     \<and> (\<exists>t\<in>set ts. js_greater (Number p (knowledge_value t)) (Finite 50))"
proof
  assume "\<exists>vs. parse_techs p ts = Parsed vs"
  then obtain vs where "parse_techs p ts = Parsed vs" ..
  then have "2 \<le> length ts"
    and "\<forall>t\<in>set ts. title_value t \<noteq> [] \<and>
           (\<exists>q. Number p (knowledge_value t) = Finite q \<and> 1 \<le> q \<and> q \<le> 100)"
    and "\<exists>t\<in>set ts. js_greater (Number p (knowledge_value t)) (Finite 50)"
    by (simp_all add: parse_techs_Parsed_iff)
  then show "2 \<le> length ts
     \<and> (\<forall>t\<in>set ts. title_value t \<noteq> [])
     \<and> (\<forall>t\<in>set ts. \<exists>q. Number p (knowledge_value t) = Finite q \<and> 1 \<le> q \<and> q \<le> 100)
     \<and> (\<exists>t\<in>set ts. js_greater (Number p (knowledge_value t)) (Finite 50))"
    by blast
next
  assume "2 \<le> length ts
     \<and> (\<forall>t\<in>set ts. title_value t \<noteq> [])
     \<and> (\<forall>t\<in>set ts. \<exists>q. Number p (knowledge_value t) = Finite q \<and> 1 \<le> q \<and> q \<le> 100)
     \<and> (\<exists>t\<in>set ts. js_greater (Number p (knowledge_value t)) (Finite 50))"
  then have "parse_techs p ts = Parsed (map (coerce_tech p) ts)"
    by (simp add: parse_techs_Parsed_iff)
  then show "\<exists>vs. parse_techs p ts = Parsed vs" ..
qed

theorem techs_accepted_iff_witness:
  "(\<exists>vs. parse_techs example_platform example_techs = Parsed vs)
   \<and> length example_techs = 2"
proof -
  have "2 \<le> length example_techs
     \<and> (\<forall>t\<in>set example_techs. title_value t \<noteq> [])
     \<and> (\<forall>t\<in>set example_techs.
           \<exists>q. Number example_platform (knowledge_value t) = Finite q \<and> 1 \<le> q \<and> q \<le> 100)
     \<and> (\<exists>t\<in>set example_techs. js_greater (Number example_platform (knowledge_value t)) (Finite 50))"
    by (simp add: example_techs_def example_platform_def js_greater_def ascii_def)
  with techs_accepted_iff [of example_platform example_techs]
  have "\<exists>vs. parse_techs example_platform example_techs = Parsed vs" by simp
  then show ?thesis by (simp add: example_techs_def)
qed

subsection \<open>C9: a name with an empty word\<close>

text \<open>
  C9, as amended. When a nonempty name, once trimmed and split at the single spaces, has an
  empty word (two spaces in a row between two words, or nothing but white space), the
  transform calls a method on \<^verbatim>\<open>undefined\<close> and throws a \<^verbatim>\<open>TypeError\<close>: the field gives
  neither a value nor an issue, and so does the whole schema.
\<close>

theorem name_with_empty_word_throws:
  assumes "n \<noteq> []" and "[] \<in> set (split 0x20 (trim n))"
  shows "parse_name p n = Thrown TypeError
       \<and> createUserFormSchema p (v\<lparr>name_value := n\<rparr>) = Thrown TypeError"
proof -
  from assms have "parse_name p n = Thrown TypeError"
    by (rule parse_name_Thrown)
  then show ?thesis
    by (simp add: schema_name_Thrown)
qed

text \<open>
  Two spaces between two words, a name of three spaces, and a name of other white space
  (no-break space, ideographic space, byte order mark, tab).
\<close>

theorem name_with_empty_word_throws_witness:
  "ascii ''ana  maria'' \<noteq> [] \<and> [] \<in> set (split 0x20 (trim (ascii ''ana  maria'')))
   \<and> parse_name example_platform (ascii ''ana  maria'') = Thrown TypeError
   \<and> createUserFormSchema example_platform (example_form\<lparr>name_value := ascii ''ana  maria''\<rparr>)
       = Thrown TypeError
   \<and> parse_name example_platform (ascii ''   '') = Thrown TypeError
   \<and> parse_name example_platform [0x00A0, 0x3000, 0xFEFF, 0x0009] = Thrown TypeError"
proof -
  have two: "[] \<in> set (split 0x20 (trim (ascii ''ana  maria'')))"
    by (simp add: trim_def is_white_space_def ascii_def)
  have blank: "[] \<in> set (split 0x20 (trim (ascii ''   '')))"
    by (simp add: trim_def is_white_space_def ascii_def)
  have other: "[] \<in> set (split 0x20 (trim [0x00A0, 0x3000, 0xFEFF, 0x0009]))"
    by (simp add: trim_def is_white_space_def)
  have filled: "ascii ''ana  maria'' \<noteq> []" and spaces: "ascii ''   '' \<noteq> []"
    by (simp_all add: ascii_def)
  from name_with_empty_word_throws [OF filled two, of example_platform example_form]
    name_with_empty_word_throws [OF spaces blank, of example_platform example_form]
    name_with_empty_word_throws [OF _ other, of example_platform example_form] two filled
  show ?thesis by simp
qed

text \<open>
  C9 as stated fails: a name that begins with a space gives an empty word when split at the
  single spaces, and a name that ends in two spaces has two spaces in a row, yet both are
  trimmed first and parse.
\<close>

theorem empty_word_before_trim_counterexample:
  "ascii '' ana'' \<noteq> [] \<and> [] \<in> set (split 0x20 (ascii '' ana''))
   \<and> parse_name example_platform (ascii '' ana'') = Parsed (ascii ''Ana'')
   \<and> [] \<in> set (split 0x20 (ascii ''ana  ''))
   \<and> parse_name example_platform (ascii ''ana  '') = Parsed (ascii ''Ana'')"
  by (simp add: parse_name_def transform_name_def trim_def is_white_space_def ascii_def
        example_platform_def upper_latin1_def)

subsection \<open>C10: the address in the parsed data\<close>

text \<open>
  C10. In the data of every accepted submission the address is the lower-case conversion of
  the one typed, and it ends in \<^verbatim>\<open>@boo.com.br\<close>, whatever the case of the letters typed.
  It is entirely in lower case: for an address in Latin-1, converting it again changes
  nothing and no capital letter, accented or not, is left in it; for any address,
  converting it again changes nothing on every platform whose conversion is idempotent, as
  that of the language is.
\<close>

theorem accepted_email_lowercase_boo:
  assumes "createUserFormSchema p v = Parsed d"
  shows "email d = toLowerCase p (email_value v)
       \<and> endsWith (email d) (ascii ''@boo.com.br'')
       \<and> (list_all is_latin1 (email_value v) \<longrightarrow>
            toLowerCase p (email d) = email d
            \<and> (\<forall>c\<in>set (email d). \<not> is_latin1_capital c))
       \<and> ((\<forall>s. toLowerCase p (toLowerCase p s) = toLowerCase p s) \<longrightarrow>
            toLowerCase p (email d) = email d)"
proof -
  from assms have "parse_email p (email_value v) = Parsed (email d)"
    by (simp add: schema_Parsed_iff)
  then have lowered: "email d = toLowerCase p (email_value v)"
    and suffix: "endsWith (toLowerCase p (email_value v)) (ascii ''@boo.com.br'')"
    by (simp_all add: parse_email_Parsed_iff)
  have latin1: "toLowerCase p (email d) = email d \<and> (\<forall>c\<in>set (email d). \<not> is_latin1_capital c)"
    if "list_all is_latin1 (email_value v)"
  proof -
    from that have "email d = map lower_latin1 (email_value v)"
      by (simp add: lowered toLowerCase_latin1)
    then have "\<forall>c\<in>set (email d). \<not> is_latin1_capital c"
      by (simp add: lower_latin1_not_capital)
    moreover from that have "toLowerCase p (email d) = email d"
      by (simp add: lowered toLowerCase_latin1_idem)
    ultimately show ?thesis by simp
  qed
  have stable: "toLowerCase p (email d) = email d"
    if "\<forall>s. toLowerCase p (toLowerCase p s) = toLowerCase p s"
    using that by (simp add: lowered)
  from lowered suffix latin1 stable show ?thesis by simp
qed

text \<open>The address of the second form, typed in capitals with an accented first letter.\<close>

theorem accepted_email_lowercase_boo_witness:
  "email_value accented_form = 0xC9 # ascii ''RICA@BOO.COM.BR''
   \<and> createUserFormSchema example_platform accented_form = Parsed accented_data
   \<and> email accented_data = 0xE9 # ascii ''rica@boo.com.br''
   \<and> endsWith (email accented_data) (ascii ''@boo.com.br'')
   \<and> toLowerCase example_platform (email accented_data) = email accented_data"
proof -
  have typed: "email_value accented_form = 0xC9 # ascii ''RICA@BOO.COM.BR''"
    by (simp add: accented_form_def)
  have parsed: "email accented_data = 0xE9 # ascii ''rica@boo.com.br''"
    by (simp add: accented_data_def)
  have latin1: "list_all is_latin1 (email_value accented_form)"
    by (simp add: accented_form_def ascii_def is_latin1_def)
  have stable: "\<forall>s. toLowerCase example_platform (toLowerCase example_platform s)
                   = toLowerCase example_platform s"
    by (simp add: example_toLowerCase_idem)
  from accepted_email_lowercase_boo [OF schema_accented] latin1 stable
  have "endsWith (email accented_data) (ascii ''@boo.com.br'')"
    and "toLowerCase example_platform (email accented_data) = email accented_data"
    by blast+
  with typed parsed schema_accented show ?thesis by blast
qed

end
